theory Spec2Isabelle
  imports Main "HOL-Library.Char_ord" "HOL-Library.List_Lexorder"
begin

section \<open>Strings\<close>

text \<open>
  A string is a list of code units; \<open>starts_with\<close> and \<open>str_includes\<close> are
  \<^verbatim>\<open>String.prototype.startsWith\<close> and \<^verbatim>\<open>String.prototype.includes\<close>.
\<close>

fun starts_with :: "string \<Rightarrow> string \<Rightarrow> bool" where
  "starts_with s [] = True"
| "starts_with [] (c # t) = False"
| "starts_with (a # s) (c # t) = (a = c \<and> starts_with s t)"

fun str_includes :: "string \<Rightarrow> string \<Rightarrow> bool" where
  "str_includes [] t = (t = [])"
| "str_includes (a # s) t = (starts_with (a # s) t \<or> str_includes s t)"

section \<open>Record composer (utils/composePortalRecords.ts)\<close>

text \<open>
  The role labels are the two string literals of the TypeScript union
  \<^verbatim>\<open>"Waste Generator" | "Receiver"\<close>; \<open>role_text\<close> gives the literal back.
\<close>

datatype Role = Waste_Generator | Receiver

fun role_text :: "Role \<Rightarrow> string" where
  "role_text Waste_Generator = ''Waste Generator''"
| "role_text Receiver = ''Receiver''"

datatype 'n location = Address string | LatLon 'n 'n

datatype capacity = Low | Medium | High

text \<open>
  \<^verbatim>\<open>PortalRecord["COMMON"]\<close>: the optional "Factory Type" is \<open>None\<close> when the key is
  absent. Numbers (\<open>lat\<close>, \<open>lon\<close>) are opaque here, so their type is a parameter.
\<close>

record 'n common =
  Factory_Type :: "Role option"
  Factory_Name :: string
  Industry_Type :: string
  Location :: "'n location"
  Certification :: string
  Email :: string
  Production_Capacity :: capacity
  Sustainability_Goal :: string

text \<open>
  \<^verbatim>\<open>PortalRecord\<close>: the detail sections are optional keys; the composer only passes the
  detail objects through, so their types are parameters.
\<close>

record ('n, 'g, 'r) PortalRecord =
  COMMON :: "'n common"
  GENERATOR :: "'g option"
  RECEIVER :: "'r option"
  Factory_ID :: "string option"

text \<open>
  \<^verbatim>\<open>roles.includes(x) && detail\<close>: a detail argument is an object or \<open>null\<close>, and every
  object is truthy, so the test on the detail is \<open>detail \<noteq> None\<close>. \<open>out.push\<close> appends.
\<close>

definition composePortalRecords ::
  "'n common \<Rightarrow> 'g option \<Rightarrow> 'r option \<Rightarrow> Role list \<Rightarrow> ('n, 'g, 'r) PortalRecord list" where
  "composePortalRecords common generator receiver roles =
     (let out0 = [];
          base = common;
          out1 = (if Waste_Generator \<in> set roles \<and> generator \<noteq> None
                  then out0 @ [\<lparr>COMMON = base\<lparr>Factory_Type := Some Waste_Generator\<rparr>,
                                GENERATOR = generator, RECEIVER = None, Factory_ID = None\<rparr>]
                  else out0);
          out2 = (if Receiver \<in> set roles \<and> receiver \<noteq> None
                  then out1 @ [\<lparr>COMMON = base\<lparr>Factory_Type := Some Receiver\<rparr>,
                                GENERATOR = None, RECEIVER = receiver, Factory_ID = None\<rparr>]
                  else out1)
      in out2)"


definition example_common :: "int common" where
  "example_common =
     \<lparr>Factory_Type = None, Factory_Name = ''Acme Steel'', Industry_Type = ''Steel'',
      Location = LatLon 12 77, Certification = ''ISO 14001'', Email = ''ops@acme.example'',
      Production_Capacity = Medium, Sustainability_Goal = ''Zero landfill''\<rparr>"

section \<open>JavaScript values (utilities of the Match page)\<close>

text \<open>
  The values the table utilities receive are parsed JSON plus \<open>undefined\<close>. An object is
  the list of its own entries in enumeration order (what \<^verbatim>\<open>Object.entries\<close> returns),
  and its prototype is \<^verbatim>\<open>Object.prototype\<close>. A number is an integer, printed in decimal,
  as JavaScript prints integers of magnitude below \<open>10^21\<close>; fractional numbers are outside
  the model. A character is a code unit below 256.
\<close>

datatype jsval =
    JUndefined
  | JNull
  | JBool bool
  | JNum int
  | JStr string
  | JArr "jsval list"
  | JObj "(string \<times> jsval) list"

datatype jstype = T_undefined | T_object | T_boolean | T_number | T_string

fun js_typeof :: "jsval \<Rightarrow> jstype" where
  "js_typeof JUndefined = T_undefined"
| "js_typeof JNull = T_object"
| "js_typeof (JBool b) = T_boolean"
| "js_typeof (JNum n) = T_number"
| "js_typeof (JStr s) = T_string"
| "js_typeof (JArr xs) = T_object"
| "js_typeof (JObj es) = T_object"

fun isArray :: "jsval \<Rightarrow> bool" where
  "isArray (JArr xs) = True"
| "isArray v = False"

fun truthy :: "jsval \<Rightarrow> bool" where
  "truthy JUndefined = False"
| "truthy JNull = False"
| "truthy (JBool b) = b"
| "truthy (JNum n) = (n \<noteq> 0)"
| "truthy (JStr s) = (s \<noteq> [])"
| "truthy (JArr xs) = True"
| "truthy (JObj es) = True"

definition dquote :: char where "dquote = CHR 0x22"
definition newline :: char where "newline = CHR 0x0A"
definition comma :: char where "comma = CHR '',''"

fun digit_char :: "nat \<Rightarrow> char" where
  "digit_char n = ''0123456789abcdef'' ! (n mod 16)"

fun nat_str :: "nat \<Rightarrow> string" where
  "nat_str n = (if n < 10 then [digit_char n] else nat_str (n div 10) @ [digit_char (n mod 10)])"

declare nat_str.simps [simp del]

definition int_str :: "int \<Rightarrow> string" where
  "int_str i = (if i < 0 then CHR ''-'' # nat_str (nat (- i)) else nat_str (nat i))"

text \<open>\<^verbatim>\<open>Array.prototype.join\<close> on an array of strings.\<close>

fun js_join :: "string \<Rightarrow> string list \<Rightarrow> string" where
  "js_join sep [] = []"
| "js_join sep [x] = x"
| "js_join sep (x # y # ys) = x @ sep @ js_join sep (y # ys)"

text \<open>
  \<^verbatim>\<open>String(v)\<close>. An array prints its elements separated by commas, \<open>null\<close> and
  \<open>undefined\<close> elements as the empty string; a plain object prints as
  \<^verbatim>\<open>[object Object]\<close>.
\<close>

fun js_String :: "jsval \<Rightarrow> string"
  and js_String_elems :: "jsval list \<Rightarrow> string list" where
  "js_String JUndefined = ''undefined''"
| "js_String JNull = ''null''"
| "js_String (JBool b) = (if b then ''true'' else ''false'')"
| "js_String (JNum n) = int_str n"
| "js_String (JStr s) = s"
| "js_String (JArr xs) = js_join '','' (js_String_elems xs)"
| "js_String (JObj es) = ''[object Object]''"
| "js_String_elems [] = []"
| "js_String_elems (x # xs) =
     (if x = JNull \<or> x = JUndefined then [] else js_String x) # js_String_elems xs"

text \<open>
  \<^verbatim>\<open>JSON.stringify\<close>: \<open>None\<close> is the result \<open>undefined\<close>. In an array an
  \<open>undefined\<close> element prints as \<open>null\<close>; in an object a member whose value is
  \<open>undefined\<close> is left out.
\<close>

definition json_escape_char :: "char \<Rightarrow> string" where
  "json_escape_char c =
     (if c = dquote then [CHR 0x5C, dquote]
      else if c = CHR 0x5C then [CHR 0x5C, CHR 0x5C]
      else if c = CHR 0x08 then [CHR 0x5C, CHR ''b'']
      else if c = CHR 0x0C then [CHR 0x5C, CHR ''f'']
      else if c = CHR 0x0A then [CHR 0x5C, CHR ''n'']
      else if c = CHR 0x0D then [CHR 0x5C, CHR ''r'']
      else if c = CHR 0x09 then [CHR 0x5C, CHR ''t'']
      else if (of_char c :: nat) < 32
        then [CHR 0x5C, CHR ''u'', CHR ''0'', CHR ''0'',
              digit_char (of_char c div 16), digit_char (of_char c mod 16)]
      else [c])"

definition json_quote :: "string \<Rightarrow> string" where
  "json_quote s = [dquote] @ concat (map json_escape_char s) @ [dquote]"

fun json_text :: "jsval \<Rightarrow> string option"
  and json_elems :: "jsval list \<Rightarrow> string list"
  and json_members :: "(string \<times> jsval) list \<Rightarrow> string list" where
  "json_text JUndefined = None"
| "json_text JNull = Some ''null''"
| "json_text (JBool b) = Some (if b then ''true'' else ''false'')"
| "json_text (JNum n) = Some (int_str n)"
| "json_text (JStr s) = Some (json_quote s)"
| "json_text (JArr xs) = Some (''['' @ js_join '','' (json_elems xs) @ '']'')"
| "json_text (JObj es) = Some (''{'' @ js_join '','' (json_members es) @ ''}'')"
| "json_elems [] = []"
| "json_elems (x # xs) =
     (case json_text x of None \<Rightarrow> ''null'' | Some t \<Rightarrow> t) # json_elems xs"
| "json_members [] = []"
| "json_members ((k, v) # es) =
     (case json_text v of
        None \<Rightarrow> json_members es
      | Some t \<Rightarrow> (json_quote k @ '':'' @ t) # json_members es)"

definition JSON_stringify :: "jsval \<Rightarrow> jsval" where
  "JSON_stringify v = (case json_text v of None \<Rightarrow> JUndefined | Some t \<Rightarrow> JStr t)"

definition isPrimitive :: "jsval \<Rightarrow> bool" where
  "isPrimitive v = (v = JNull \<or> js_typeof v \<in> set [T_string, T_number, T_boolean])"

definition toCell :: "jsval \<Rightarrow> jsval" where
  "toCell v = (if isPrimitive v then v else JSON_stringify v)"

subsection \<open>flatten\<close>

text \<open>
  \<open>out\<close> is the accumulator object: the finite map of its own entries, and whether its
  prototype has been set to \<open>null\<close>. It starts as \<^verbatim>\<open>{}\<close>, whose prototype is
  \<^verbatim>\<open>Object.prototype\<close>. \<^verbatim>\<open>out[key] = v\<close> binds \<open>key\<close>, except for the key
  \<^verbatim>\<open>__proto__\<close> while the prototype is not \<open>null\<close>: that assignment reaches the accessor
  inherited from \<^verbatim>\<open>Object.prototype\<close>, which sets the prototype to \<open>v\<close> when \<open>v\<close> is
  \<open>null\<close> or an object and does nothing otherwise, and creates no entry. Once the
  prototype is \<open>null\<close> no accessor is inherited and \<^verbatim>\<open>__proto__\<close> is a key like any
  other. \<open>flatten_entries\<close> is the \<^verbatim>\<open>for (const [k, v] of Object.entries(obj))\<close> loop.
\<close>

record out_object =
  entries :: "string \<rightharpoonup> jsval"
  null_prototype :: bool

definition empty_object :: out_object where
  "empty_object = \<lparr>entries = Map.empty, null_prototype = False\<rparr>"

definition js_assign :: "out_object \<Rightarrow> string \<Rightarrow> jsval \<Rightarrow> out_object" where
  "js_assign out key v =
     (if key = ''__proto__'' \<and> \<not> null_prototype out
      then (if v = JNull then out\<lparr>null_prototype := True\<rparr> else out)
      else out\<lparr>entries := (entries out)(key \<mapsto> v)\<rparr>)"

definition prefix_or_value :: "string \<Rightarrow> string" where
  "prefix_or_value prefix = (if prefix \<noteq> [] then prefix else ''value'')"

fun flatten :: "jsval \<Rightarrow> string \<Rightarrow> out_object \<Rightarrow> out_object"
  and flatten_entries :: "(string \<times> jsval) list \<Rightarrow> string \<Rightarrow> out_object \<Rightarrow> out_object" where
  "flatten JNull prefix out = out"
| "flatten JUndefined prefix out = out"
| "flatten (JArr xs) prefix out = js_assign out (prefix_or_value prefix) (JArr xs)"
| "flatten (JBool b) prefix out = js_assign out (prefix_or_value prefix) (JBool b)"
| "flatten (JNum n) prefix out = js_assign out (prefix_or_value prefix) (JNum n)"
| "flatten (JStr s) prefix out = js_assign out (prefix_or_value prefix) (JStr s)"
| "flatten (JObj es) prefix out = flatten_entries es prefix out"
| "flatten_entries [] prefix out = out"
| "flatten_entries ((k, v) # rest) prefix out =
     (let key = (if prefix \<noteq> [] then prefix @ ''.'' @ k else k)
      in flatten_entries rest prefix
           (if truthy v \<and> js_typeof v = T_object \<and> \<not> isArray v
            then flatten v key out
            else js_assign out key v))"

subsection \<open>unionKeysWithPreferred\<close>

text \<open>
  \<^verbatim>\<open>Object.keys\<close>: the keys of an object, the indices of an array or a string.
  A \<^verbatim>\<open>Set\<close> is the list of its elements in insertion order.
\<close>

fun Object_keys :: "jsval \<Rightarrow> string list" where
  "Object_keys (JObj es) = map fst es"
| "Object_keys (JArr xs) = map nat_str [0..<length xs]"
| "Object_keys (JStr s) = map nat_str [0..<length s]"
| "Object_keys v = []"

definition set_add :: "string list \<Rightarrow> string \<Rightarrow> string list" where
  "set_add s k = (if k \<in> set s then s else s @ [k])"

definition unionKeysWithPreferred :: "jsval list \<Rightarrow> string list \<Rightarrow> string list" where
  "unionKeysWithPreferred rows preferred =
     (let s = fold (\<lambda>r s. if truthy r \<and> js_typeof r = T_object
                           then fold (\<lambda>k s. set_add s k) (Object_keys r) s
                           else s) rows [];
          all = s;
          orderedPref = filter (\<lambda>k. k \<in> set s) preferred;
          rest = sort (filter (\<lambda>k. k \<notin> set preferred) all)
      in orderedPref @ rest)"


subsection \<open>csvDownload\<close>

text \<open>
  \<^verbatim>\<open>toCell(r?.[h])\<close>. The lookup \<^verbatim>\<open>r?.[h]\<close> is \<open>undefined\<close> on \<open>null\<close> and
  \<open>undefined\<close>. Otherwise it finds an own property of \<open>r\<close> (\<open>own_prop\<close>: an entry of an
  object, an element or the length of an array or a string), or it walks the prototype
  chain, where the key \<^verbatim>\<open>__proto__\<close> finds the prototype object of \<open>r\<close> and every other
  key finds \<open>undefined\<close> or a built-in method. \<open>toCell\<close> sends a method to \<open>undefined\<close>
  as it does \<open>undefined\<close> (a function is not primitive and \<^verbatim>\<open>JSON.stringify\<close> of a
  function is \<open>undefined\<close>), and sends the prototype object to its JSON text
  (\<open>prototype_json\<close>).
\<close>

definition index_of_key :: "string \<Rightarrow> nat \<Rightarrow> nat option" where
  "index_of_key h n = List.find (\<lambda>i. nat_str i = h) [0..<n]"

fun own_prop :: "jsval \<Rightarrow> string \<Rightarrow> jsval option" where
  "own_prop (JObj es) h = map_of es h"
| "own_prop (JArr xs) h =
     (if h = ''length'' then Some (JNum (int (length xs)))
      else case index_of_key h (length xs) of None \<Rightarrow> None | Some i \<Rightarrow> Some (xs ! i))"
| "own_prop (JStr s) h =
     (if h = ''length'' then Some (JNum (int (length s)))
      else case index_of_key h (length s) of None \<Rightarrow> None | Some i \<Rightarrow> Some (JStr [s ! i]))"
| "own_prop v h = None"

fun prototype_json :: "jsval \<Rightarrow> string" where
  "prototype_json (JObj es) = ''{}''"
| "prototype_json (JArr xs) = ''[]''"
| "prototype_json (JStr s) = [dquote, dquote]"
| "prototype_json (JNum n) = ''0''"
| "prototype_json (JBool b) = ''false''"
| "prototype_json v = []"

definition row_cell :: "jsval \<Rightarrow> string \<Rightarrow> jsval" where
  "row_cell r h =
     (if r = JNull \<or> r = JUndefined then toCell JUndefined
      else case own_prop r h of
             Some v \<Rightarrow> toCell v
           | None \<Rightarrow> if h = ''__proto__'' then JStr (prototype_json r) else toCell JUndefined)"

text \<open>\<^verbatim>\<open>cell ?? ""\<close>.\<close>

definition or_empty :: "jsval \<Rightarrow> jsval" where
  "or_empty cell = (if cell = JNull \<or> cell = JUndefined then JStr [] else cell)"

text \<open>\<^verbatim>\<open>/[",\n]/.test(s)\<close> and \<^verbatim>\<open>s.replace(/"/g, '""')\<close>.\<close>

definition test_special :: "string \<Rightarrow> bool" where
  "test_special s = list_ex (\<lambda>c. c = dquote \<or> c = comma \<or> c = newline) s"

definition replace_quotes :: "string \<Rightarrow> string" where
  "replace_quotes s = concat (map (\<lambda>c. if c = dquote then [dquote, dquote] else [c]) s)"

definition csv_cell :: "jsval \<Rightarrow> string" where
  "csv_cell cell =
     (let s = js_String (or_empty cell)
      in if test_special s then [dquote] @ replace_quotes s @ [dquote] else s)"

definition csv_text :: "jsval list \<Rightarrow> string list \<Rightarrow> string" where
  "csv_text rows headers =
     (let outRows = map (\<lambda>r. map (\<lambda>h. row_cell r h) headers) rows
      in js_join [newline]
           (map (\<lambda>row. js_join [comma] (map csv_cell row)) (map JStr headers # outRows)))"

text \<open>
  The effect of \<open>csvDownload\<close> is the click on an anchor whose target is a blob holding
  the CSV text and whose \<open>download\<close> attribute is the file name; \<open>None\<close> is the early
  return, with no blob and no click.
\<close>

record download_action =
  blob_text :: string
  blob_type :: string
  download :: string

definition csvDownload :: "jsval list \<Rightarrow> string list \<Rightarrow> string \<Rightarrow> download_action option" where
  "csvDownload rows headers filename =
     (if length rows = 0 then None
      else Some \<lparr>blob_text = csv_text rows headers, blob_type = ''text/csv'',
                 download = filename\<rparr>)"

section \<open>Graph construction (pages/Cycles.tsx)\<close>

text \<open>
  \<open>MaterialsRow\<close> with the fields the graph step reads; an optional or nullable name is
  \<open>None\<close> when it is missing or \<open>null\<close>.
\<close>

record MaterialsRow =
  factory_id :: int
  factory_name :: string
  role :: string
  waste_type_name :: "string option"
  raw_material_name :: "string option"
  raw_material_category :: "string option"
  waste_category :: "string option"
  created_at :: "string option"

text \<open>
  \<^verbatim>\<open>trim\<close> removes the white space of both ends and \<^verbatim>\<open>toLowerCase\<close> maps the
  upper-case letters, both on code units below 256.
\<close>

definition is_space :: "char \<Rightarrow> bool" where
  "is_space c = ((of_char c :: nat) \<in> set [9, 10, 11, 12, 13, 32, 160])"

definition trim :: "string \<Rightarrow> string" where
  "trim s = rev (dropWhile is_space (rev (dropWhile is_space s)))"

definition lower_char :: "char \<Rightarrow> char" where
  "lower_char c =
     (let n = (of_char c :: nat)
      in if (65 \<le> n \<and> n \<le> 90) \<or> (192 \<le> n \<and> n \<le> 222 \<and> n \<noteq> 215)
         then char_of (n + 32) else c)"

definition toLowerCase :: "string \<Rightarrow> string" where
  "toLowerCase s = map lower_char s"

text \<open>\<^verbatim>\<open>norm = (s) => (s ? String(s).trim().toLowerCase() : "")\<close>.\<close>

definition norm :: "string option \<Rightarrow> string" where
  "norm s = (case s of None \<Rightarrow> [] | Some t \<Rightarrow> if t \<noteq> [] then toLowerCase (trim t) else [])"

definition row_label :: "MaterialsRow \<Rightarrow> string" where
  "row_label m =
     (if factory_name m \<noteq> [] then factory_name m else ''Factory#'' @ int_str (factory_id m))"

text \<open>
  \<open>graph\<close> is a plain object used as a dictionary from factory labels to neighbour
  lists: a finite map of its own entries. A read \<^verbatim>\<open>graph[k]\<close> of a key without an own
  entry walks the prototype chain and finds the member of \<^verbatim>\<open>Object.prototype\<close> of that
  name, if there is one: a built-in method, or the prototype object itself for
  \<^verbatim>\<open>__proto__\<close>.
\<close>

definition object_prototype_keys :: "string list" where
  "object_prototype_keys =
     [''constructor'', ''hasOwnProperty'', ''isPrototypeOf'', ''propertyIsEnumerable'',
      ''toLocaleString'', ''toString'', ''valueOf'', ''__proto__'', ''__defineGetter__'',
      ''__defineSetter__'', ''__lookupGetter__'', ''__lookupSetter__'']"

datatype 'a looked_up = Own 'a | Inherited | Undefined

definition graph_get :: "(string \<rightharpoonup> string list) \<Rightarrow> string \<Rightarrow> string list looked_up" where
  "graph_get graph k =
     (case graph k of
        Some ns \<Rightarrow> Own ns
      | None \<Rightarrow> if k \<in> set object_prototype_keys then Inherited else Undefined)"

datatype js_error = TypeError

text \<open>
  The body of the inner loop after the two \<open>continue\<close> tests.
  \<^verbatim>\<open>if (!graph[gName]) graph[gName] = []\<close>: an array and an inherited member are truthy,
  \<open>undefined\<close> is not. \<^verbatim>\<open>graph[gName].includes(rName)\<close>: an inherited member has no
  \<open>includes\<close> method, so the call throws a \<open>TypeError\<close>, as would the read on
  \<open>undefined\<close>.
\<close>

definition add_edge ::
  "(string \<rightharpoonup> string list) \<Rightarrow> string \<Rightarrow> string \<Rightarrow> js_error + (string \<rightharpoonup> string list)" where
  "add_edge graph gName rName =
     (let graph1 = (case graph_get graph gName of
                      Undefined \<Rightarrow> graph(gName \<mapsto> [])
                    | Own ns \<Rightarrow> graph
                    | Inherited \<Rightarrow> graph)
      in case graph_get graph1 gName of
           Own ns \<Rightarrow>
             Inr (if rName \<in> set ns then graph1 else graph1(gName \<mapsto> ns @ [rName]))
         | Inherited \<Rightarrow> Inl TypeError
         | Undefined \<Rightarrow> Inl TypeError)"

definition is_generator_row :: "MaterialsRow \<Rightarrow> bool" where
  "is_generator_row m =
     (str_includes (norm (Some (role m))) ''generator'' \<and> norm (waste_type_name m) \<noteq> [])"

definition is_receiver_row :: "MaterialsRow \<Rightarrow> bool" where
  "is_receiver_row m =
     (str_includes (norm (Some (role m))) ''receiver'' \<and> norm (raw_material_name m) \<noteq> [])"

text \<open>A \<open>for\<close> loop over a list whose body may throw: the first error ends the loop.\<close>

fun for_each :: "('a \<Rightarrow> 's \<Rightarrow> js_error + 's) \<Rightarrow> 'a list \<Rightarrow> 's \<Rightarrow> js_error + 's" where
  "for_each body [] s = Inr s"
| "for_each body (x # xs) s =
     (case body x s of Inl e \<Rightarrow> Inl e | Inr s' \<Rightarrow> for_each body xs s')"

text \<open>
  Step 2 of \<open>fetchMaterialsAndCycles\<close>: the two filters and the nested loops that fill
  \<open>graph\<close>. An error leaves the \<open>try\<close> block, so no graph is built.
\<close>

definition build_graph :: "MaterialsRow list \<Rightarrow> js_error + (string \<rightharpoonup> string list)" where
  "build_graph materials_full =
     (let gens = filter is_generator_row materials_full;
          recs = filter is_receiver_row materials_full
      in for_each
           (\<lambda>g graph.
              let gName = row_label g
              in for_each
                   (\<lambda>r graph.
                      let sameMaterial = (norm (waste_type_name g) = norm (raw_material_name r))
                      in if \<not> sameMaterial then Inr graph
                         else let rName = row_label r
                              in if gName = rName then Inr graph
                                 else add_edge graph gName rName)
                   recs graph)
           gens Map.empty)"

section \<open>Specification predicates\<close>

text \<open>A plain object: an object that is neither \<open>null\<close> nor an array.\<close>

definition is_plain_object :: "jsval \<Rightarrow> bool" where
  "is_plain_object v = (case v of JObj es \<Rightarrow> True | _ \<Rightarrow> False)"

definition flat_values :: "out_object \<Rightarrow> bool" where
  "flat_values out = (\<forall>k v. entries out k = Some v \<longrightarrow> \<not> is_plain_object v)"





text \<open>
  A row that passes the test \<^verbatim>\<open>r && typeof r === "object"\<close>, the union of the keys
  of such rows, and the key-collecting loop of \<open>unionKeysWithPreferred\<close> from a given
  starting set.
\<close>

definition object_typed :: "jsval \<Rightarrow> bool" where
  "object_typed r = (truthy r \<and> js_typeof r = T_object)"

definition union_keys :: "jsval list \<Rightarrow> string set" where
  "union_keys rows = (\<Union>r \<in> set (filter object_typed rows). set (Object_keys r))"

definition collect_keys :: "jsval list \<Rightarrow> string list \<Rightarrow> string list" where
  "collect_keys rows s0 =
     fold (\<lambda>r s. if truthy r \<and> js_typeof r = T_object
                 then fold (\<lambda>k s. set_add s k) (Object_keys r) s
                 else s) rows s0"

text \<open>
  The escaping rule in the words of the specification: a value needs quoting when it
  contains a comma, a double quote or a newline; \<open>double_quotes\<close> doubles every double
  quote; \<open>csv_field\<close> is the emitted field. \<open>cell_string r h\<close> is the stringified cell
  of row \<open>r\<close> under header \<open>h\<close>.
\<close>

definition needs_quoting :: "string \<Rightarrow> bool" where
  "needs_quoting s = (comma \<in> set s \<or> dquote \<in> set s \<or> newline \<in> set s)"

primrec double_quotes :: "string \<Rightarrow> string" where
  "double_quotes [] = []"
| "double_quotes (c # s) = (if c = dquote then dquote # dquote # double_quotes s else c # double_quotes s)"

definition csv_field :: "string \<Rightarrow> string" where
  "csv_field s = (if needs_quoting s then [dquote] @ double_quotes s @ [dquote] else s)"

definition cell_string :: "jsval \<Rightarrow> string \<Rightarrow> string" where
  "cell_string r h = js_String (or_empty (row_cell r h))"

section \<open>Specification of the graph step\<close>

text \<open>
  The neighbour list of a label in a graph; a list with its later repeats removed; the
  edges that the nested loops try to add, in loop order (\<open>edge_list\<close>), and the
  receivers among them for one generator label (\<open>candidates\<close>). \<open>put_edge\<close> is the
  effect of adding one edge to a dictionary, \<open>edge_body\<close> the body of the inner loop,
  \<open>materials_row\<close> a row with the fields the graph step reads.
\<close>

definition neighbours :: "(string \<rightharpoonup> string list) \<Rightarrow> string \<Rightarrow> string list" where
  "neighbours graph G = (case graph G of None \<Rightarrow> [] | Some ns \<Rightarrow> ns)"

definition first_occurrences :: "'a list \<Rightarrow> 'a list" where
  "first_occurrences xs = rev (remdups (rev xs))"

definition matches :: "MaterialsRow \<Rightarrow> MaterialsRow \<Rightarrow> bool" where
  "matches g r =
     (norm (waste_type_name g) = norm (raw_material_name r) \<and> row_label r \<noteq> row_label g)"

definition edge_list :: "MaterialsRow list \<Rightarrow> (string \<times> string) list" where
  "edge_list rows =
     concat (map (\<lambda>g. map (\<lambda>r. (row_label g, row_label r))
                        (filter (matches g) (filter is_receiver_row rows)))
               (filter is_generator_row rows))"

definition candidates :: "MaterialsRow list \<Rightarrow> string \<Rightarrow> string list" where
  "candidates rows G = map snd (filter (\<lambda>e. fst e = G) (edge_list rows))"

definition push_new :: "string list \<Rightarrow> string \<Rightarrow> string list" where
  "push_new ns r = (if r \<in> set ns then ns else ns @ [r])"

definition put_edge :: "string \<times> string \<Rightarrow> (string \<rightharpoonup> string list) \<Rightarrow> (string \<rightharpoonup> string list)" where
  "put_edge e graph = graph(fst e \<mapsto> push_new (neighbours graph (fst e)) (snd e))"

definition edge_body ::
  "string \<Rightarrow> string \<Rightarrow> MaterialsRow \<Rightarrow> (string \<rightharpoonup> string list)
     \<Rightarrow> js_error + (string \<rightharpoonup> string list)" where
  "edge_body w gName r graph =
     (if w = norm (raw_material_name r) \<and> row_label r \<noteq> gName
      then add_edge graph gName (row_label r) else Inr graph)"

definition materials_row :: "int \<Rightarrow> string \<Rightarrow> string \<Rightarrow> string option \<Rightarrow> string option \<Rightarrow> MaterialsRow" where
  "materials_row i name rl waste raw =
     \<lparr>factory_id = i, factory_name = name, role = rl, waste_type_name = waste,
      raw_material_name = raw, raw_material_category = None, waste_category = None,
      created_at = None\<rparr>"

section \<open>Properties of the record composer\<close>

lemma role_text_Generator: "str_includes (role_text x) ''Generator'' = (x = Waste_Generator)"
  by (cases x) simp_all

lemma role_text_Receiver: "str_includes (role_text x) ''Receiver'' = (x = Receiver)"
  by (cases x) simp_all

lemma length_filter_eq_distinct:
  "distinct xs \<Longrightarrow> length (filter (\<lambda>x. x = a) xs) = (if a \<in> set xs then 1 else 0)"
  by (induction xs) auto

text \<open>
  C1. \<open>composePortalRecords\<close> returns exactly: first, when "Waste Generator" is among the
  roles and the generator detail is not null, the record whose COMMON is the copy of
  \<open>common\<close> with "Factory Type" set to "Waste Generator" and whose only detail section is
  GENERATOR; then, when "Receiver" is among the roles and the receiver detail is not
  null, the analogous receiver record. For a duplicate-free roles list and two non-null
  details the number of records is the number of roles whose text contains "Generator"
  plus the number whose text contains "Receiver". Every record has exactly one of
  GENERATOR and RECEIVER populated, with the matching "Factory Type".
\<close>

theorem composePortalRecords_records:
  "composePortalRecords common generator receiver roles =
     (case generator of
        None \<Rightarrow> []
      | Some g \<Rightarrow>
          if Waste_Generator \<in> set roles
          then [\<lparr>COMMON = common\<lparr>Factory_Type := Some Waste_Generator\<rparr>,
                 GENERATOR = Some g, RECEIVER = None, Factory_ID = None\<rparr>]
          else []) @
     (case receiver of
        None \<Rightarrow> []
      | Some r \<Rightarrow>
          if Receiver \<in> set roles
          then [\<lparr>COMMON = common\<lparr>Factory_Type := Some Receiver\<rparr>,
                 GENERATOR = None, RECEIVER = Some r, Factory_ID = None\<rparr>]
          else [])
   \<and> (distinct roles \<longrightarrow>
        length (composePortalRecords common (Some g') (Some r') roles) =
          length (filter (\<lambda>x. str_includes (role_text x) ''Generator'') roles) +
          length (filter (\<lambda>x. str_includes (role_text x) ''Receiver'') roles))
   \<and> (\<forall>rec \<in> set (composePortalRecords common generator receiver roles).
        (GENERATOR rec = generator \<and> generator \<noteq> None \<and> RECEIVER rec = None \<and>
         Factory_Type (COMMON rec) = Some Waste_Generator \<and> Waste_Generator \<in> set roles)
        \<or>
        (RECEIVER rec = receiver \<and> receiver \<noteq> None \<and> GENERATOR rec = None \<and>
         Factory_Type (COMMON rec) = Some Receiver \<and> Receiver \<in> set roles))"
  by (auto simp: composePortalRecords_def Let_def role_text_Generator role_text_Receiver
        length_filter_eq_distinct split: option.splits)

theorem composePortalRecords_records_witness:
  "distinct [Receiver, Waste_Generator] \<and>
   composePortalRecords example_common (Some ''gen'') (Some ''rec'') [Receiver, Waste_Generator] =
     [\<lparr>COMMON = example_common\<lparr>Factory_Type := Some Waste_Generator\<rparr>,
       GENERATOR = Some ''gen'', RECEIVER = None, Factory_ID = None\<rparr>,
      \<lparr>COMMON = example_common\<lparr>Factory_Type := Some Receiver\<rparr>,
       GENERATOR = None, RECEIVER = Some ''rec'', Factory_ID = None\<rparr>] \<and>
   length (composePortalRecords example_common (Some ''gen'') (Some ''rec'') [Receiver, Waste_Generator]) = 2"
  using composePortalRecords_records
    [of example_common "Some ''gen''" "Some ''rec''" "[Receiver, Waste_Generator]" "''gen''" "''rec''"]
  by simp

text \<open>
  C7. \<open>composePortalRecords\<close> is a total function into lists of records: it has no
  failing branch. A role whose detail argument is null yields no record for that role,
  and with both details null the result is the empty list, whatever the roles.
\<close>

theorem composePortalRecords_total:
  "composePortalRecords common None None roles = []
   \<and> (\<forall>rec \<in> set (composePortalRecords common None receiver roles).
         Factory_Type (COMMON rec) = Some Receiver \<and> GENERATOR rec = None)
   \<and> (\<forall>rec \<in> set (composePortalRecords common generator None roles).
         Factory_Type (COMMON rec) = Some Waste_Generator \<and> RECEIVER rec = None)
   \<and> length (composePortalRecords common None receiver roles) \<le> 1
   \<and> length (composePortalRecords common generator None roles) \<le> 1"
  by (simp add: composePortalRecords_def Let_def)

theorem composePortalRecords_total_witness:
  "composePortalRecords example_common None None [Waste_Generator, Receiver] = [] \<and>
   composePortalRecords example_common None (Some ''rec'') [Waste_Generator, Receiver] =
     [\<lparr>COMMON = example_common\<lparr>Factory_Type := Some Receiver\<rparr>,
       GENERATOR = (None :: string option), RECEIVER = Some ''rec'', Factory_ID = None\<rparr>]"
  using composePortalRecords_total
    [of example_common "[Waste_Generator, Receiver]" "Some ''rec''" "None :: string option"]
  by (simp add: composePortalRecords_def)

section \<open>Properties of unionKeysWithPreferred\<close>

lemma set_add_fold_set: "set (fold (\<lambda>k s. set_add s k) ks s) = set s \<union> set ks"
  by (induction ks arbitrary: s) (auto simp: set_add_def)

lemma set_add_fold_distinct: "distinct s \<Longrightarrow> distinct (fold (\<lambda>k s. set_add s k) ks s)"
  by (induction ks arbitrary: s) (auto simp: set_add_def)

lemma collect_keys_set: "set (collect_keys rows s) = set s \<union> union_keys rows"
  unfolding collect_keys_def
proof (induction rows arbitrary: s)
  case Nil
  show ?case by (simp add: union_keys_def)
next
  case (Cons r rows)
  show ?case
    by (simp add: Cons.IH set_add_fold_set union_keys_def object_typed_def Un_assoc)
qed

lemma collect_keys_distinct: "distinct s \<Longrightarrow> distinct (collect_keys rows s)"
  unfolding collect_keys_def
  by (induction rows arbitrary: s) (simp_all add: set_add_fold_distinct)

lemma unionKeysWithPreferred_collect:
  "unionKeysWithPreferred rows preferred =
     filter (\<lambda>k. k \<in> set (collect_keys rows [])) preferred @
     sort (filter (\<lambda>k. k \<notin> set preferred) (collect_keys rows []))"
  by (simp add: unionKeysWithPreferred_def collect_keys_def Let_def)

lemma sort_distinct_eq: "distinct xs \<Longrightarrow> sort xs = sorted_list_of_set (set xs)"
  by (simp add: sorted_list_of_set_sort_remdups distinct_remdups_id)

lemma unionKeysWithPreferred_eq:
  "unionKeysWithPreferred rows preferred =
     filter (\<lambda>k. k \<in> union_keys rows) preferred @
     sorted_list_of_set (union_keys rows - set preferred)"
proof -
  let ?all = "collect_keys rows []"
  have s: "set ?all = union_keys rows" by (simp add: collect_keys_set)
  have d: "distinct ?all" by (simp add: collect_keys_distinct)
  have "sort (filter (\<lambda>k. k \<notin> set preferred) ?all)
        = sorted_list_of_set (set (filter (\<lambda>k. k \<notin> set preferred) ?all))"
    using d by (intro sort_distinct_eq) simp
  also have "set (filter (\<lambda>k. k \<notin> set preferred) ?all) = union_keys rows - set preferred"
    using s by auto
  finally show ?thesis by (simp add: unionKeysWithPreferred_collect s)
qed

lemma finite_union_keys: "finite (union_keys rows)"
  by (simp add: union_keys_def)

text \<open>
  C5. For every list of rows and every preferred list, \<open>unionKeysWithPreferred\<close>
  returns first each preferred key that is a key of some object-typed row, in the order
  of \<open>preferred\<close>, then all remaining keys of the union in ascending lexical order.
  Rows that are not objects contribute no keys (an array is an object whose keys are its
  indices). The rows \<open>[{x:1,y:2},{y:3,z:4}]\<close> with preferred \<open>["z"]\<close> give
  \<open>["z","x","y"]\<close>.
\<close>

theorem unionKeysWithPreferred_order:
  "unionKeysWithPreferred rows preferred =
     filter (\<lambda>k. k \<in> union_keys rows) preferred @
     sorted_list_of_set (union_keys rows - set preferred)
   \<and> unionKeysWithPreferred (filter object_typed rows) preferred =
       unionKeysWithPreferred rows preferred
   \<and> unionKeysWithPreferred
        [JObj [(''x'', JNum 1), (''y'', JNum 2)], JObj [(''y'', JNum 3), (''z'', JNum 4)]] [''z'']
      = [''z'', ''x'', ''y'']"
proof -
  have "union_keys (filter object_typed rows) = union_keys rows"
    by (simp add: union_keys_def)
  then have "unionKeysWithPreferred (filter object_typed rows) preferred =
       unionKeysWithPreferred rows preferred"
    by (simp add: unionKeysWithPreferred_eq)
  moreover have "unionKeysWithPreferred
        [JObj [(''x'', JNum 1), (''y'', JNum 2)], JObj [(''y'', JNum 3), (''z'', JNum 4)]] [''z'']
      = [''z'', ''x'', ''y'']"
    by (simp add: unionKeysWithPreferred_def set_add_def)
  ultimately show ?thesis using unionKeysWithPreferred_eq by blast
qed

lemma count_list_filter: "count_list (filter P xs) k = (if P k then count_list xs k else 0)"
  by (induction xs) auto

lemma count_list_distinct: "distinct xs \<Longrightarrow> count_list xs k = (if k \<in> set xs then 1 else 0)"
  by (induction xs) auto

text \<open>
  C9. A key of the union of the object rows' keys occurs in the output exactly once when
  it is not in \<open>preferred\<close>, and exactly as often as it occurs in \<open>preferred\<close>
  otherwise; no other key occurs. The elements of the output are exactly the union, a
  duplicate-free preferred list gives a duplicate-free output, and a preferred list that
  repeats a present key repeats it in the output.
\<close>

theorem unionKeysWithPreferred_multiplicity:
  "(\<forall>k \<in> union_keys rows.
      count_list (unionKeysWithPreferred rows preferred) k =
        (if k \<in> set preferred then count_list preferred k else 1))
   \<and> (\<forall>k. k \<notin> union_keys rows \<longrightarrow> count_list (unionKeysWithPreferred rows preferred) k = 0)
   \<and> set (unionKeysWithPreferred rows preferred) = union_keys rows
   \<and> (distinct preferred \<longrightarrow> distinct (unionKeysWithPreferred rows preferred))
   \<and> count_list (unionKeysWithPreferred [JObj [(''x'', JNum 1)]] [''x'', ''x'']) ''x'' = 2"
proof -
  let ?U = "union_keys rows"
  let ?rest = "sorted_list_of_set (?U - set preferred)"
  have fin: "finite (?U - set preferred)" by (simp add: finite_union_keys)
  have rest: "count_list ?rest k = (if k \<in> ?U - set preferred then 1 else 0)" for k
    using fin by (simp add: count_list_distinct)
  have cnt: "count_list (unionKeysWithPreferred rows preferred) k =
      (if k \<in> ?U then count_list preferred k else 0) + (if k \<in> ?U - set preferred then 1 else 0)" for k
    by (simp add: unionKeysWithPreferred_eq count_list_filter rest)
  have c1: "\<forall>k \<in> ?U. count_list (unionKeysWithPreferred rows preferred) k =
        (if k \<in> set preferred then count_list preferred k else 1)"
    by (simp add: cnt count_list_0_iff)
  have c2: "\<forall>k. k \<notin> ?U \<longrightarrow> count_list (unionKeysWithPreferred rows preferred) k = 0"
    by (simp add: cnt)
  have c3: "set (unionKeysWithPreferred rows preferred) = ?U"
    using fin by (auto simp add: unionKeysWithPreferred_eq)
  have c4: "distinct preferred \<longrightarrow> distinct (unionKeysWithPreferred rows preferred)"
    using fin by (auto simp add: unionKeysWithPreferred_eq)
  have c5: "count_list (unionKeysWithPreferred [JObj [(''x'', JNum 1)]] [''x'', ''x'']) ''x'' = 2"
    by (simp add: unionKeysWithPreferred_def set_add_def)
  from c1 c2 c3 c4 c5 show ?thesis by blast
qed


theorem unionKeysWithPreferred_order_witness:
  "filter (\<lambda>k. k \<in> union_keys [JObj [(''x'', JNum 1), (''y'', JNum 2)], JNull, JStr ''ab'',
                                  JObj [(''y'', JNum 3), (''z'', JNum 4)]]) [''z'', ''q''] @
   sorted_list_of_set
     (union_keys [JObj [(''x'', JNum 1), (''y'', JNum 2)], JNull, JStr ''ab'',
                  JObj [(''y'', JNum 3), (''z'', JNum 4)]] - set [''z'', ''q''])
   = [''z'', ''x'', ''y'']"
proof -
  let ?rows = "[JObj [(''x'', JNum 1), (''y'', JNum 2)], JNull, JStr ''ab'',
                JObj [(''y'', JNum 3), (''z'', JNum 4)]]"
  have "unionKeysWithPreferred ?rows [''z'', ''q''] =
          filter (\<lambda>k. k \<in> union_keys ?rows) [''z'', ''q''] @
          sorted_list_of_set (union_keys ?rows - set [''z'', ''q''])"
    using unionKeysWithPreferred_order [of ?rows "[''z'', ''q'']"] by (rule conjunct1)
  then have "filter (\<lambda>k. k \<in> union_keys ?rows) [''z'', ''q''] @
          sorted_list_of_set (union_keys ?rows - set [''z'', ''q''])
        = unionKeysWithPreferred ?rows [''z'', ''q'']"
    by (rule sym)
  also have "\<dots> = [''z'', ''x'', ''y'']"
    by (simp add: unionKeysWithPreferred_def set_add_def)
  finally show ?thesis .
qed

theorem unionKeysWithPreferred_multiplicity_witness:
  "''x'' \<in> union_keys [JObj [(''x'', JNum 1)]] \<and>
   count_list (unionKeysWithPreferred [JObj [(''x'', JNum 1)]] [''x'', ''x'']) ''x'' = 2 \<and>
   ''y'' \<notin> union_keys [JObj [(''x'', JNum 1)]] \<and>
   count_list (unionKeysWithPreferred [JObj [(''x'', JNum 1)]] [''x'', ''x'']) ''y'' = 0 \<and>
   distinct [''y'', ''x''] \<and>
   distinct (unionKeysWithPreferred [JObj [(''x'', JNum 1)]] [''y'', ''x''])"
  using unionKeysWithPreferred_multiplicity [of "[JObj [(''x'', JNum 1)]]" "[''x'', ''x'']"]
    unionKeysWithPreferred_multiplicity [of "[JObj [(''x'', JNum 1)]]" "[''y'', ''x'']"]
  by (simp add: union_keys_def object_typed_def)

section \<open>Properties of csvDownload\<close>

lemma test_special_iff: "test_special s = needs_quoting s"
  by (auto simp: test_special_def needs_quoting_def list_ex_iff)

lemma replace_quotes_eq: "replace_quotes s = double_quotes s"
  by (induction s) (simp_all add: replace_quotes_def)

lemma csv_cell_field: "csv_cell cell = csv_field (js_String (or_empty cell))"
  by (simp add: csv_cell_def csv_field_def Let_def test_special_iff replace_quotes_eq)

lemma csv_text_fields:
  "csv_text rows headers =
     js_join [newline]
       (map (\<lambda>ss. js_join [comma] (map csv_field ss))
          (headers # map (\<lambda>r. map (cell_string r) headers) rows))"
  by (simp add: csv_text_def Let_def csv_cell_field or_empty_def cell_string_def comp_def)

lemma length_double_quotes: "length s \<le> length (double_quotes s)"
  by (induction s) simp_all

lemma csv_field_quoted_iff:
  "(csv_field s = [dquote] @ double_quotes s @ [dquote]) = needs_quoting s"
proof (cases "needs_quoting s")
  case True
  then show ?thesis by (simp add: csv_field_def)
next
  case False
  have "length s < length ([dquote] @ double_quotes s @ [dquote])"
    using length_double_quotes [of s] by simp
  then have "s \<noteq> [dquote] @ double_quotes s @ [dquote]" by (metis less_irrefl)
  with False show ?thesis by (simp add: csv_field_def)
qed

lemma csv_field_verbatim_iff: "(csv_field s = s) = (\<not> needs_quoting s)"
proof (cases "needs_quoting s")
  case True
  have "length s < length ([dquote] @ double_quotes s @ [dquote])"
    using length_double_quotes [of s] by simp
  then have "[dquote] @ double_quotes s @ [dquote] \<noteq> s" by (metis less_irrefl)
  with True show ?thesis by (simp add: csv_field_def)
next
  case False
  then show ?thesis by (simp add: csv_field_def)
qed

lemma csv_example:
  "csv_text [JObj [(''a'', JStr ''x,y''), (''b'', JNum 1)]] [''a'', ''b'']
     = ''a,b'' @ [newline] @ [dquote] @ ''x,y'' @ [dquote] @ '',1''"
  by (simp add: csv_text_def csv_cell_def row_cell_def toCell_def isPrimitive_def or_empty_def
        test_special_def replace_quotes_def dquote_def comma_def newline_def int_str_def
        nat_str.simps)

text \<open>
  C3. For a non-empty rows list the CSV text of \<open>csvDownload\<close> is the header line and
  one line per row, joined by newlines, every line being its cells joined by commas, and
  every cell (header cells included) is \<open>csv_field\<close> of the stringified cell value:
  the value wrapped in double quotes with every double quote doubled if and only if it
  contains a comma, a double quote or a newline, and the value verbatim otherwise. The
  rows \<open>[{a:"x,y", b:1}]\<close> with headers \<open>["a","b"]\<close> give the line \<open>a,b\<close> followed
  by the line \<open>"x,y",1\<close>.
\<close>

theorem csvDownload_escaping:
  "(rows \<noteq> [] \<longrightarrow>
      csvDownload rows headers filename =
        Some \<lparr>blob_text =
                js_join [newline]
                  (map (\<lambda>ss. js_join [comma] (map csv_field ss))
                     (headers # map (\<lambda>r. map (cell_string r) headers) rows)),
              blob_type = ''text/csv'', download = filename\<rparr>)
   \<and> (csv_field s = [dquote] @ double_quotes s @ [dquote]) = needs_quoting s
   \<and> (csv_field s = s) = (\<not> needs_quoting s)
   \<and> csvDownload [JObj [(''a'', JStr ''x,y''), (''b'', JNum 1)]] [''a'', ''b''] ''out.csv'' =
        Some \<lparr>blob_text = ''a,b'' @ [newline] @ [dquote] @ ''x,y'' @ [dquote] @ '',1'',
              blob_type = ''text/csv'', download = ''out.csv''\<rparr>"
proof -
  have "rows \<noteq> [] \<longrightarrow>
      csvDownload rows headers filename =
        Some \<lparr>blob_text =
                js_join [newline]
                  (map (\<lambda>ss. js_join [comma] (map csv_field ss))
                     (headers # map (\<lambda>r. map (cell_string r) headers) rows)),
              blob_type = ''text/csv'', download = filename\<rparr>"
    by (simp add: csvDownload_def csv_text_fields)
  moreover have "csvDownload [JObj [(''a'', JStr ''x,y''), (''b'', JNum 1)]] [''a'', ''b''] ''out.csv'' =
        Some \<lparr>blob_text = ''a,b'' @ [newline] @ [dquote] @ ''x,y'' @ [dquote] @ '',1'',
              blob_type = ''text/csv'', download = ''out.csv''\<rparr>"
    by (simp only: csvDownload_def csv_example) simp
  ultimately show ?thesis
    using csv_field_quoted_iff [of s] csv_field_verbatim_iff [of s] by blast
qed

theorem csvDownload_escaping_witness:
  "[JObj [(''q'', JStr [CHR ''a'', dquote, CHR ''b''])]] \<noteq> [] \<and>
   csvDownload [JObj [(''q'', JStr [CHR ''a'', dquote, CHR ''b''])]] [''q''] ''f.csv'' =
     Some \<lparr>blob_text = ''q'' @ [newline] @ [dquote, CHR ''a'', dquote, dquote, CHR ''b'', dquote],
           blob_type = ''text/csv'', download = ''f.csv''\<rparr> \<and>
   needs_quoting [CHR ''a'', dquote, CHR ''b''] \<and> \<not> needs_quoting ''q''"
  using csvDownload_escaping
    [of "[JObj [(''q'', JStr [CHR ''a'', dquote, CHR ''b''])]]" "[''q'']" "''f.csv''" "''q''"]
  by (simp add: csv_field_def needs_quoting_def cell_string_def row_cell_def toCell_def
        isPrimitive_def or_empty_def dquote_def comma_def newline_def)

text \<open>
  C8. With an empty rows list \<open>csvDownload\<close> returns early for every headers list:
  no CSV text is built and no download is triggered; that is the only case without a
  download.
\<close>

theorem csvDownload_empty_rows:
  "csvDownload [] headers filename = None
   \<and> (csvDownload rows headers filename = None) = (rows = [])"
  by (simp add: csvDownload_def)


section \<open>Properties of the graph step\<close>

lemma for_each_append:
  "for_each f (xs @ ys) s = (case for_each f xs s of Inl e \<Rightarrow> Inl e | Inr s' \<Rightarrow> for_each f ys s')"
  by (induction xs arbitrary: s) (simp_all split: sum.splits)

lemma edge_body_eq:
  "(\<lambda>r graph. if \<not> w = norm (raw_material_name r) then Inr graph
              else if gName = row_label r then Inr graph
                   else add_edge graph gName (row_label r))
   = edge_body w gName"
  by (intro ext) (auto simp: edge_body_def)

lemma for_each_filter_edges:
  "for_each (\<lambda>r graph. if P r then add_edge graph g (lab r) else Inr graph) recs graph
   = for_each (\<lambda>e graph. add_edge graph (fst e) (snd e)) (map (\<lambda>r. (g, lab r)) (filter P recs)) graph"
  by (induction recs arbitrary: graph) (simp_all split: sum.splits)

lemma inner_loop_edges:
  "for_each (edge_body w gName) recs graph
   = for_each (\<lambda>e graph. add_edge graph (fst e) (snd e))
       (map (\<lambda>r. (gName, row_label r))
          (filter (\<lambda>r. w = norm (raw_material_name r) \<and> row_label r \<noteq> gName) recs)) graph"
proof -
  have eb: "edge_body w gName =
          (\<lambda>r graph. if w = norm (raw_material_name r) \<and> row_label r \<noteq> gName
                      then add_edge graph gName (row_label r) else Inr graph)"
    by (intro ext) (simp add: edge_body_def)
  show ?thesis by (simp only: eb for_each_filter_edges)
qed

lemma outer_loop_edges:
  "for_each (\<lambda>g. for_each f (E g)) gens graph = for_each f (concat (map E gens)) graph"
proof (induction gens arbitrary: graph)
  case Nil
  show ?case by simp
next
  case (Cons g gens)
  show ?case by (simp add: Cons.IH for_each_append split: sum.splits)
qed

lemma build_graph_edge_list:
  "build_graph rows = for_each (\<lambda>e graph. add_edge graph (fst e) (snd e)) (edge_list rows) Map.empty"
proof -
  have "build_graph rows =
          for_each (\<lambda>g. for_each (edge_body (norm (waste_type_name g)) (row_label g))
                          (filter is_receiver_row rows))
            (filter is_generator_row rows) Map.empty"
    unfolding build_graph_def Let_def by (simp only: edge_body_eq)
  also have "\<dots> =
          for_each (\<lambda>g. for_each (\<lambda>e graph. add_edge graph (fst e) (snd e))
                          (map (\<lambda>r. (row_label g, row_label r))
                             (filter (matches g) (filter is_receiver_row rows))))
            (filter is_generator_row rows) Map.empty"
  proof -
    have "for_each (edge_body (norm (waste_type_name g)) (row_label g)) recs
          = for_each (\<lambda>e graph. add_edge graph (fst e) (snd e))
              (map (\<lambda>r. (row_label g, row_label r)) (filter (matches g) recs))" for g recs
    proof -
      have "matches g = (\<lambda>r. norm (waste_type_name g) = norm (raw_material_name r)
                             \<and> row_label r \<noteq> row_label g)"
        by (intro ext) (simp add: matches_def)
      then show ?thesis by (intro ext) (simp add: inner_loop_edges)
    qed
    then show ?thesis by (simp only:)
  qed
  also have "\<dots> = for_each (\<lambda>e graph. add_edge graph (fst e) (snd e)) (edge_list rows) Map.empty"
    by (simp only: outer_loop_edges edge_list_def)
  finally show ?thesis .
qed


lemma add_edge_own:
  "graph g = Some ns \<Longrightarrow> add_edge graph g r = Inr (put_edge (g, r) graph)"
  by (auto simp add: add_edge_def graph_get_def put_edge_def neighbours_def push_new_def Let_def)

lemma add_edge_fresh:
  "graph g = None \<Longrightarrow> g \<notin> set object_prototype_keys \<Longrightarrow>
     add_edge graph g r = Inr (put_edge (g, r) graph)"
  by (simp add: add_edge_def graph_get_def put_edge_def neighbours_def push_new_def Let_def)

lemma add_edge_inherited:
  "graph g = None \<Longrightarrow> g \<in> set object_prototype_keys \<Longrightarrow> add_edge graph g r = Inl TypeError"
  by (simp add: add_edge_def graph_get_def Let_def)

lemma add_edge_safe:
  "g \<notin> set object_prototype_keys \<Longrightarrow> add_edge graph g r = Inr (put_edge (g, r) graph)"
  by (cases "graph g") (simp_all add: add_edge_own add_edge_fresh)

lemma for_each_safe:
  "\<forall>e \<in> set es. fst e \<notin> set object_prototype_keys \<Longrightarrow>
     for_each (\<lambda>e graph. add_edge graph (fst e) (snd e)) es graph = Inr (fold put_edge es graph)"
  by (induction es arbitrary: graph) (simp_all add: add_edge_safe)

lemma dom_put_edge: "dom (put_edge e graph) = insert (fst e) (dom graph)"
  by (simp add: put_edge_def)

lemma dom_fold_put_edge: "dom (fold put_edge es graph) = dom graph \<union> fst ` set es"
  by (induction es arbitrary: graph) (auto simp add: dom_put_edge)

lemma for_each_unsafe:
  "\<exists>e \<in> set es. fst e \<in> set object_prototype_keys \<Longrightarrow>
   dom graph \<inter> set object_prototype_keys = {} \<Longrightarrow>
     for_each (\<lambda>e graph. add_edge graph (fst e) (snd e)) es graph = Inl TypeError"
proof (induction es arbitrary: graph)
  case Nil
  then show ?case by simp
next
  case (Cons e es)
  show ?case
  proof (cases "fst e \<in> set object_prototype_keys")
    case True
    with Cons.prems(2) have "graph (fst e) = None" by auto
    with True show ?thesis by (simp add: add_edge_inherited)
  next
    case False
    then have step: "add_edge graph (fst e) (snd e) = Inr (put_edge e graph)"
      by (simp add: add_edge_safe)
    from False Cons.prems(1) have rest: "\<exists>e \<in> set es. fst e \<in> set object_prototype_keys"
      by auto
    from False Cons.prems(2) have "dom (put_edge e graph) \<inter> set object_prototype_keys = {}"
      by (simp add: dom_put_edge)
    from Cons.IH [OF rest this] step show ?thesis by simp
  qed
qed

lemma neighbours_put_edge:
  "neighbours (put_edge e graph) G =
     (if fst e = G then push_new (neighbours graph G) (snd e) else neighbours graph G)"
  by (auto simp add: put_edge_def neighbours_def)

lemma neighbours_fold_put_edge:
  "neighbours (fold put_edge es graph) G =
     fold (\<lambda>r ns. push_new ns r) (map snd (filter (\<lambda>e. fst e = G) es)) (neighbours graph G)"
  by (induction es arbitrary: graph) (simp_all add: neighbours_put_edge)

lemma remdups_skip: "x \<in> set bs \<Longrightarrow> remdups (as @ x # bs) = remdups (as @ bs)"
  by (induction as) auto

lemma fold_push_new:
  "distinct acc \<Longrightarrow> fold (\<lambda>r ns. push_new ns r) xs acc = rev (remdups (rev (acc @ xs)))"
proof (induction xs arbitrary: acc)
  case Nil
  then show ?case by (simp add: distinct_remdups_id)
next
  case (Cons x xs)
  show ?case
  proof (cases "x \<in> set acc")
    case True
    then have "remdups (rev xs @ x # rev acc) = remdups (rev xs @ rev acc)"
      by (intro remdups_skip) simp
    with True Cons show ?thesis by (simp add: push_new_def)
  next
    case False
    with Cons.prems have "distinct (acc @ [x])" by simp
    from Cons.IH [OF this] False show ?thesis by (simp add: push_new_def)
  qed
qed

lemma first_occurrences_set: "set (first_occurrences xs) = set xs"
  by (simp add: first_occurrences_def)

lemma first_occurrences_distinct: "distinct (first_occurrences xs)"
  by (simp add: first_occurrences_def)

lemma set_candidates:
  "R \<in> set (candidates rows G) \<longleftrightarrow>
     (\<exists>g \<in> set rows. \<exists>r \<in> set rows.
        is_generator_row g \<and> row_label g = G \<and> is_receiver_row r \<and> row_label r = R \<and>
        norm (waste_type_name g) = norm (raw_material_name r) \<and> G \<noteq> R)"
  unfolding candidates_def edge_list_def matches_def by force

lemma candidates_empty_iff: "candidates rows G = [] \<longleftrightarrow> G \<notin> fst ` set (edge_list rows)"
  by (auto simp add: candidates_def filter_empty_conv)


lemma build_graph_safe:
  assumes "\<forall>e \<in> set (edge_list rows). fst e \<notin> set object_prototype_keys"
  shows "build_graph rows = Inr (fold put_edge (edge_list rows) Map.empty)"
  using assms by (simp add: build_graph_edge_list for_each_safe)

text \<open>
  The graph step throws exactly when some edge to add starts at a label that is the name
  of a member of \<^verbatim>\<open>Object.prototype\<close>.
\<close>

lemma build_graph_fails_iff:
  "build_graph rows = Inl TypeError \<longleftrightarrow>
     (\<exists>e \<in> set (edge_list rows). fst e \<in> set object_prototype_keys)"
proof
  assume f: "build_graph rows = Inl TypeError"
  show "\<exists>e \<in> set (edge_list rows). fst e \<in> set object_prototype_keys"
  proof (rule ccontr)
    assume "\<not> (\<exists>e \<in> set (edge_list rows). fst e \<in> set object_prototype_keys)"
    then have "\<forall>e \<in> set (edge_list rows). fst e \<notin> set object_prototype_keys" by blast
    from build_graph_safe [OF this] f show False by simp
  qed
next
  assume "\<exists>e \<in> set (edge_list rows). fst e \<in> set object_prototype_keys"
  then show "build_graph rows = Inl TypeError"
    by (simp add: build_graph_edge_list for_each_unsafe)
qed

lemma neighbours_built:
  "neighbours (fold put_edge (edge_list rows) Map.empty) G = first_occurrences (candidates rows G)"
proof -
  have "neighbours Map.empty G = []" by (simp add: neighbours_def)
  then show ?thesis
    by (simp add: neighbours_fold_put_edge candidates_def fold_push_new first_occurrences_def)
qed

text \<open>
  When no edge to add starts at such a label, the graph is built, and for every label G
  the neighbour list of G is duplicate-free, in first-insertion order, and holds R
  exactly when a generator row labelled G and a receiver row labelled R have the same
  normalized material name and G differs from R; G is a key exactly when it has a
  neighbour.
\<close>

lemma build_graph_edges:
  assumes "\<forall>e \<in> set (edge_list rows). fst e \<notin> set object_prototype_keys"
  shows "\<exists>graph. build_graph rows = Inr graph \<and>
           (\<forall>G. neighbours graph G = first_occurrences (candidates rows G) \<and>
                distinct (neighbours graph G) \<and>
                (graph G = None) = (candidates rows G = []) \<and>
                (\<forall>R. R \<in> set (neighbours graph G) \<longleftrightarrow>
                   (\<exists>g \<in> set rows. \<exists>r \<in> set rows.
                      is_generator_row g \<and> row_label g = G \<and>
                      is_receiver_row r \<and> row_label r = R \<and>
                      norm (waste_type_name g) = norm (raw_material_name r) \<and> G \<noteq> R)))"
proof -
  let ?graph = "fold put_edge (edge_list rows) Map.empty"
  have b: "build_graph rows = Inr ?graph" using assms by (rule build_graph_safe)
  have n: "neighbours ?graph G = first_occurrences (candidates rows G)" for G
    by (rule neighbours_built)
  have d: "distinct (neighbours ?graph G)" for G
    by (simp only: n first_occurrences_distinct)
  have k: "(?graph G = None) = (candidates rows G = [])" for G
  proof -
    have "(?graph G = None) = (G \<notin> dom ?graph)" by auto
    also have "\<dots> = (G \<notin> fst ` set (edge_list rows))" by (simp add: dom_fold_put_edge)
    finally show ?thesis by (simp add: candidates_empty_iff)
  qed
  have m: "R \<in> set (neighbours ?graph G) \<longleftrightarrow>
             (\<exists>g \<in> set rows. \<exists>r \<in> set rows.
                is_generator_row g \<and> row_label g = G \<and>
                is_receiver_row r \<and> row_label r = R \<and>
                norm (waste_type_name g) = norm (raw_material_name r) \<and> G \<noteq> R)" for G R
    by (simp only: n first_occurrences_set set_candidates)
  from b n d k m show ?thesis by blast
qed

lemma example_edge_list:
  "edge_list [materials_row 1 ''A'' ''Waste Generator'' (Some ''Fly Ash'') None,
              materials_row 2 ''B'' ''Receiver'' None (Some ''fly ash'')] = [(''A'', ''B'')]"
  by code_simp

lemma example_self_loop_edge_list:
  "edge_list [materials_row 1 ''A'' ''Waste Generator'' (Some ''Fly Ash'') None,
              materials_row 1 ''A'' ''Receiver'' None (Some ''fly ash'')] = []"
  by code_simp

lemma example_inherited_edge_list:
  "edge_list [materials_row 1 ''constructor'' ''Waste Generator'' (Some ''Fly Ash'') None,
              materials_row 2 ''B'' ''Receiver'' None (Some ''fly ash'')] = [(''constructor'', ''B'')]"
  by code_simp

text \<open>
  One generator ("A", output "Fly Ash") and one receiver ("B", need "fly ash") give
  \<open>{"A": ["B"]}\<close>; the name "A" on both sides of the same material gives \<open>{}\<close>.
\<close>

lemma build_graph_examples:
  "build_graph [materials_row 1 ''A'' ''Waste Generator'' (Some ''Fly Ash'') None,
                materials_row 2 ''B'' ''Receiver'' None (Some ''fly ash'')]
     = Inr [''A'' \<mapsto> [''B'']]
   \<and> build_graph [materials_row 1 ''A'' ''Waste Generator'' (Some ''Fly Ash'') None,
                  materials_row 1 ''A'' ''Receiver'' None (Some ''fly ash'')]
     = Inr Map.empty"
  by (simp add: build_graph_edge_list example_edge_list example_self_loop_edge_list
        add_edge_def graph_get_def object_prototype_keys_def)

text \<open>
  C2. The adjacency list is to hold the edge G \<rightarrow> R exactly when a generator row
  labelled G and a receiver row labelled R name the same material and G differs from R.
  For a generator whose label is the name of a member of \<^verbatim>\<open>Object.prototype\<close> the graph
  step builds no adjacency list at all: with the generator "constructor" (output
  "Fly Ash") and the receiver "B" (need "fly ash") the one edge to add is
  constructor \<rightarrow> B, and the step throws a \<open>TypeError\<close> instead.
\<close>

theorem build_graph_inherited_label:
  "edge_list [materials_row 1 ''constructor'' ''Waste Generator'' (Some ''Fly Ash'') None,
              materials_row 2 ''B'' ''Receiver'' None (Some ''fly ash'')]
     = [(''constructor'', ''B'')]
   \<and> build_graph [materials_row 1 ''constructor'' ''Waste Generator'' (Some ''Fly Ash'') None,
                  materials_row 2 ''B'' ''Receiver'' None (Some ''fly ash'')]
     = Inl TypeError"
  by (simp add: build_graph_edge_list example_inherited_edge_list
        add_edge_def graph_get_def object_prototype_keys_def)

section \<open>Properties of flatten\<close>

lemma plain_object_iff: "is_plain_object v = (truthy v \<and> js_typeof v = T_object \<and> \<not> isArray v)"
  by (cases v) (simp_all add: is_plain_object_def)

lemma flat_values_assign:
  "flat_values out \<Longrightarrow> \<not> is_plain_object v \<Longrightarrow> flat_values (js_assign out k v)"
  by (simp add: flat_values_def js_assign_def)

lemma flatten_flat_values:
  "flat_values out \<Longrightarrow> flat_values (flatten obj prefix out)"
  "flat_values out \<Longrightarrow> flat_values (flatten_entries es prefix out)"
proof (induction obj prefix out and es prefix out rule: flatten_flatten_entries.induct)
  case (9 k v rest prefix out)
  define key where "key = (if prefix \<noteq> [] then prefix @ ''.'' @ k else k)"
  define out' where "out' = (if truthy v \<and> js_typeof v = T_object \<and> \<not> isArray v
            then flatten v key out else js_assign out key v)"
  have "flat_values out'"
  proof (cases "truthy v \<and> js_typeof v = T_object \<and> \<not> isArray v")
    case True
    then show ?thesis using "9.IH"(1) [OF key_def True "9.prems"] by (simp add: out'_def)
  next
    case False
    then have "\<not> is_plain_object v" by (simp add: plain_object_iff)
    then show ?thesis using False "9.prems" flat_values_assign [of out v key]
      by (auto simp add: out'_def)
  qed
  then have "flat_values (flatten_entries rest prefix out')"
    using "9.IH"(2) [OF key_def] by (simp add: out'_def)
  moreover have "flatten_entries ((k, v) # rest) prefix out = flatten_entries rest prefix out'"
    by (simp add: Let_def key_def out'_def)
  ultimately show ?case by (simp only:)
qed (simp_all add: flat_values_assign is_plain_object_def)

lemma not_plain_object_cases:
  "\<not> is_plain_object v \<Longrightarrow> js_typeof v \<noteq> T_object \<or> v = JNull \<or> isArray v"
  by (cases v) (simp_all add: is_plain_object_def)

text \<open>
  C6. For every input value and prefix, no key of the mapping returned by \<open>flatten\<close> is
  bound to a plain object: every value of the result is a primitive (its \<open>typeof\<close> is
  not "object"), \<open>null\<close>, or an array.
\<close>

theorem flatten_values_not_plain_objects:
  "\<forall>k v. entries (flatten obj prefix empty_object) k = Some v \<longrightarrow>
     \<not> is_plain_object v \<and> (js_typeof v \<noteq> T_object \<or> v = JNull \<or> isArray v)"
proof (intro allI impI)
  fix k v assume e: "entries (flatten obj prefix empty_object) k = Some v"
  have "flat_values (flatten obj prefix empty_object)"
    by (rule flatten_flat_values(1)) (simp add: flat_values_def empty_object_def)
  with e have "\<not> is_plain_object v"
    by (simp add: flat_values_def)
  then show "\<not> is_plain_object v \<and> (js_typeof v \<noteq> T_object \<or> v = JNull \<or> isArray v)"
    using not_plain_object_cases by blast
qed

theorem flatten_values_not_plain_objects_witness:
  "entries (flatten (JObj [(''a'', JObj [(''b'', JNum 1), (''c'', JObj [(''d'', JArr [JObj []])])])])
      [] empty_object) ''a.c.d'' = Some (JArr [JObj []]) \<and>
   \<not> is_plain_object (JArr [JObj []]) \<and> isArray (JArr [JObj []])"
  using flatten_values_not_plain_objects
    [of "JObj [(''a'', JObj [(''b'', JNum 1), (''c'', JObj [(''d'', JArr [JObj []])])])]" "[]"]
  by (simp add: js_assign_def empty_object_def)














section \<open>Missing columns in csvDownload\<close>

lemma row_cell_missing:
  assumes "r = JNull \<or> r = JUndefined \<or> own_prop r h = Some JUndefined \<or>
           (own_prop r h = None \<and> h \<noteq> ''__proto__'')"
  shows "row_cell r h = JUndefined"
  using assms by (auto simp add: row_cell_def toCell_def isPrimitive_def JSON_stringify_def)

lemma csv_cell_undefined: "csv_cell JUndefined = [] \<and> csv_cell (toCell JNull) = []"
  by (simp add: csv_cell_def toCell_def isPrimitive_def or_empty_def test_special_def)

text \<open>
  At every header other than \<^verbatim>\<open>__proto__\<close>, a row that is \<open>null\<close> or \<open>undefined\<close>, or
  whose key is absent or bound to \<open>undefined\<close>, gets the empty cell, the rendering of a
  \<open>null\<close> value.
\<close>

lemma missing_cell_empty:
  assumes "r = JNull \<or> r = JUndefined \<or> own_prop r h = Some JUndefined \<or>
           (own_prop r h = None \<and> h \<noteq> ''__proto__'')"
  shows "cell_string r h = [] \<and> csv_field (cell_string r h) = [] \<and>
         csv_cell (row_cell r h) = csv_cell (toCell JNull)"
proof -
  from assms have u: "row_cell r h = JUndefined" by (rule row_cell_missing)
  have "cell_string r h = []" by (simp add: cell_string_def u or_empty_def)
  moreover have "csv_field [] = []" by (simp add: csv_field_def needs_quoting_def)
  ultimately show ?thesis using csv_cell_undefined by (simp add: u)
qed

text \<open>
  C10. A row with no value at a header is to get the empty cell, the rendering of a
  \<open>null\<close> value. At the header \<^verbatim>\<open>__proto__\<close> \<open>csvDownload\<close> does not do so: for the
  rows \<open>[{"__proto__": 1}, {}]\<close>, whose key union is that one header, the second row
  has no such key, yet its cell is \<open>{}\<close>, the JSON text of the prototype object that
  the lookup finds, and the CSV text is the three lines \<open>__proto__\<close>, \<open>1\<close>, \<open>{}\<close>.
\<close>

theorem csvDownload_proto_header:
  "unionKeysWithPreferred [JObj [(''__proto__'', JNum 1)], JObj []] [] = [''__proto__'']
   \<and> own_prop (JObj []) ''__proto__'' = None
   \<and> csvDownload [JObj [(''__proto__'', JNum 1)], JObj []] [''__proto__''] ''materials_full.csv''
       = Some \<lparr>blob_text = ''__proto__'' @ [newline] @ ''1'' @ [newline] @ ''{}'',
               blob_type = ''text/csv'', download = ''materials_full.csv''\<rparr>"
proof -
  have a: "unionKeysWithPreferred [JObj [(''__proto__'', JNum 1)], JObj []] [] = [''__proto__'']"
    by (simp add: unionKeysWithPreferred_def set_add_def)
  have b: "csv_text [JObj [(''__proto__'', JNum 1)], JObj []] [''__proto__'']
             = ''__proto__'' @ [newline] @ ''1'' @ [newline] @ ''{}''"
    by (simp add: csv_text_def csv_cell_def row_cell_def toCell_def isPrimitive_def or_empty_def
          test_special_def dquote_def comma_def newline_def int_str_def nat_str.simps)
  have c: "csvDownload [JObj [(''__proto__'', JNum 1)], JObj []] [''__proto__''] ''materials_full.csv''
       = Some \<lparr>blob_text = ''__proto__'' @ [newline] @ ''1'' @ [newline] @ ''{}'',
               blob_type = ''text/csv'', download = ''materials_full.csv''\<rparr>"
    by (simp only: csvDownload_def b) simp
  from a c show ?thesis by simp
qed

end
